theory Spec2Isabelle
  imports Complex_Main
begin

section \<open>INQUIRO PDF: the ingestion and query pipeline of app.py\<close>

text \<open>
  The program is a Streamlit script. Its pipeline is made of three functions,
  \<^verbatim>\<open>initialize_components\<close>, \<^verbatim>\<open>process_uploaded_files\<close> and \<^verbatim>\<open>get_rag_response\<close>,
  and of the two places of \<^verbatim>\<open>main\<close> that call them. Everything the functions do is a
  call into a library (tempfile, PyPDFLoader, HuggingFaceEmbeddings, Qdrant, Ollama,
  RetrievalQA, Streamlit): the libraries are parameters of the model (the record
  \<open>ext\<close>), the state they act on is explicit (the record \<open>world\<close>), and an exception
  is the left injection of a sum.
\<close>

subsection \<open>Python values\<close>

text \<open>An exception, known by its message \<^verbatim>\<open>str(e)\<close>.\<close>

datatype exn = Exception string

fun str :: "exn \<Rightarrow> string" where
  "str (Exception m) = m"

text \<open>\<^verbatim>\<open>str(n)\<close> of a Python integer: decimal digits, a minus sign when negative.\<close>

definition digit_char :: "nat \<Rightarrow> char" where
  "digit_char d = char_of (48 + d)"

function str_nat :: "nat \<Rightarrow> string" where
  "str_nat n = (if n < 10 then [digit_char n] else str_nat (n div 10) @ [digit_char (n mod 10)])"
  by pat_completeness auto
termination
  by (relation "measure (\<lambda>n. n)") auto

declare str_nat.simps [simp del]

definition str_int :: "int \<Rightarrow> string" where
  "str_int i = (if i < 0 then CHR ''-'' # str_nat (nat (- i)) else str_nat (nat i))"

text \<open>\<^verbatim>\<open>int(x)\<close> of a Python float: truncation towards zero. The float is a real here.\<close>

definition py_int :: "real \<Rightarrow> int" where
  "py_int x = (if 0 \<le> x then \<lfloor>x\<rfloor> else \<lceil>x\<rceil>)"

text \<open>Line 163: \<^verbatim>\<open>collection_name = f"RAG_PDF_{int(time.time())}"\<close>, as a function of the
  clock reading.\<close>

definition collection_name :: "real \<Rightarrow> string" where
  "collection_name t = ''RAG_PDF_'' @ str_int (py_int t)"

subsection \<open>Data\<close>

type_synonym bytes = "nat list"
type_synonym path = string

text \<open>A LangChain document: one page of a PDF, with the file it was read from and its
  page number (its metadata).\<close>

record document =
  page_content :: string
  source :: path
  page :: nat

text \<open>A Streamlit \<^verbatim>\<open>UploadedFile\<close>: its \<^verbatim>\<open>name\<close> and what \<^verbatim>\<open>read()\<close> gives.\<close>

record uploaded_file =
  name :: string
  read :: "exn + bytes"

datatype Distance = COSINE | EUCLID | DOT

text \<open>\<^verbatim>\<open>VectorParams(size, distance)\<close>; the field \<^verbatim>\<open>size\<close> is \<open>vsize\<close> here, \<open>size\<close>
  being a constant of HOL.\<close>

record VectorParams =
  vsize :: nat
  distance :: Distance

record collection =
  vectors_config :: VectorParams
  points :: "document list"

record embeddings =
  model_name :: string
  dim :: nat

record client =
  url :: "string option"
  api_key :: "string option"

text \<open>The vector store \<^verbatim>\<open>Qdrant.from_documents\<close> returns: a handle on a named collection.\<close>

record Qdrant =
  store_url :: "string option"
  store_api_key :: "string option"
  store_collection :: string

record Ollama =
  model :: string

record retriever =
  vectorstore :: Qdrant
  search_kwargs :: "string \<rightharpoonup> nat"

text \<open>What the chain returns: \<^verbatim>\<open>response["result"]\<close> and
  \<^verbatim>\<open>response.get("source_documents", [])\<close>.\<close>

record response =
  result :: string
  source_documents :: "document list option"

datatype st_msg = St_error string | St_success string | St_info string

datatype request =
    Delete_collection string
  | Create_collection string VectorParams
  | Upsert string "document list"
  | Invoke_chain Ollama retriever string

text \<open>The state the libraries act on: the temporary files, the collections of the
  Qdrant service, the requests the services have received, and the messages on the
  page.\<close>

record world =
  fs :: "path \<rightharpoonup> bytes"
  collections :: "string \<rightharpoonup> collection"
  requests :: "request list"
  screen :: "st_msg list"

text \<open>The libraries and the environment, as parameters: what each call returns or
  raises. \<open>mkstemp\<close> is the name \<^verbatim>\<open>tempfile\<close> picks, \<open>write_fault\<close>, \<open>delete_fault\<close>,
  \<open>create_fault\<close> and \<open>upsert_fault\<close> are the exception a call raises, if any.\<close>

record ext =
  getenv :: "string \<rightharpoonup> string"
  time :: real
  mkstemp :: "(path \<rightharpoonup> bytes) \<Rightarrow> exn + path"
  write_fault :: "path \<Rightarrow> bytes \<Rightarrow> exn option"
  PyPDFLoader :: "path \<Rightarrow> bytes \<Rightarrow> exn + document list"
  HuggingFaceEmbeddings :: "string \<Rightarrow> exn + embeddings"
  QdrantClient :: "string option \<Rightarrow> string option \<Rightarrow> exn + client"
  delete_fault :: "string \<Rightarrow> exn option"
  create_fault :: "string \<Rightarrow> exn option"
  upsert_fault :: "string \<Rightarrow> document list \<Rightarrow> exn option"
  RetrievalQA :: "Ollama \<Rightarrow> retriever \<Rightarrow> string \<Rightarrow> (string \<rightharpoonup> collection) \<Rightarrow> exn + response"

text \<open>Lines 110 to 115: \<^verbatim>\<open>st.session_state\<close>.\<close>

record session_state =
  vector_store :: "Qdrant option"
  chat_history :: "(string \<times> string) list"
  documents_loaded :: bool

text \<open>What the widgets of one run of the script return.\<close>

record ui =
  uploaded_files :: "uploaded_file list"
  process_button :: bool
  clear_button :: bool
  query_input :: string
  ask_button :: bool

text \<open>How a run of \<^verbatim>\<open>main\<close> ends: at its last line, or at \<^verbatim>\<open>st.rerun()\<close>.\<close>

datatype flow = Done | Rerun

subsection \<open>Library calls\<close>

definition st_error :: "string \<Rightarrow> world \<Rightarrow> world" where
  "st_error m w = w\<lparr>screen := screen w @ [St_error m]\<rparr>"

definition st_success :: "string \<Rightarrow> world \<Rightarrow> world" where
  "st_success m w = w\<lparr>screen := screen w @ [St_success m]\<rparr>"

definition st_info :: "string \<Rightarrow> world \<Rightarrow> world" where
  "st_info m w = w\<lparr>screen := screen w @ [St_info m]\<rparr>"

text \<open>The check mark U+2705 that starts the success messages, in UTF-8.\<close>

definition check_mark :: string where
  "check_mark = [CHR 0xE2, CHR 0x9C, CHR 0x85]"

text \<open>\<^verbatim>\<open>tempfile.NamedTemporaryFile(delete=False, suffix=".pdf")\<close>: creates an empty file
  under a name that no file has, or raises.\<close>

definition NamedTemporaryFile :: "ext \<Rightarrow> world \<Rightarrow> exn + path \<times> world" where
  "NamedTemporaryFile X w =
     (case mkstemp X (fs w) of
        Inl e \<Rightarrow> Inl e
      | Inr p \<Rightarrow>
          (case fs w p of
             Some b \<Rightarrow> Inl (Exception ''FileExistsError'')
           | None \<Rightarrow> Inr (p, w\<lparr>fs := (fs w)(p \<mapsto> [])\<rparr>)))"

text \<open>\<^verbatim>\<open>os.unlink(tmp_path)\<close>.\<close>

definition os_unlink :: "path \<Rightarrow> world \<Rightarrow> exn + world" where
  "os_unlink p w =
     (case fs w p of
        None \<Rightarrow> Inl (Exception ''FileNotFoundError'')
      | Some b \<Rightarrow> Inr (w\<lparr>fs := (fs w)(p := None)\<rparr>))"

text \<open>\<^verbatim>\<open>PyPDFLoader(tmp_path).load()\<close>: the pages of the file at the path.\<close>

definition PyPDFLoader_load :: "ext \<Rightarrow> path \<Rightarrow> world \<Rightarrow> exn + document list" where
  "PyPDFLoader_load X p w =
     (case fs w p of
        None \<Rightarrow> Inl (Exception (''File path '' @ p @ '' is not a valid file or url''))
      | Some b \<Rightarrow> PyPDFLoader X p b)"

text \<open>The Qdrant service. Every request is recorded. Deleting a collection that does
  not exist is no error; creating one that exists is; \<^verbatim>\<open>from_documents\<close> adds the
  documents to the collection of that name (making it when there is none, refusing
  one of another dimension). Each call may also raise as \<open>ext\<close> says.\<close>

definition record_request :: "request \<Rightarrow> world \<Rightarrow> world" where
  "record_request r w = w\<lparr>requests := requests w @ [r]\<rparr>"

definition delete_collection :: "ext \<Rightarrow> string \<Rightarrow> world \<Rightarrow> (exn + bool) \<times> world" where
  "delete_collection X n w =
     (let w1 = record_request (Delete_collection n) w in
      case delete_fault X n of
        Some e \<Rightarrow> (Inl e, w1)
      | None \<Rightarrow> (Inr (collections w n \<noteq> None), w1\<lparr>collections := (collections w1)(n := None)\<rparr>))"

definition create_collection :: "ext \<Rightarrow> string \<Rightarrow> VectorParams \<Rightarrow> world \<Rightarrow> (exn + bool) \<times> world" where
  "create_collection X n params w =
     (let w1 = record_request (Create_collection n params) w in
      case create_fault X n of
        Some e \<Rightarrow> (Inl e, w1)
      | None \<Rightarrow>
          (case collections w n of
             Some c \<Rightarrow> (Inl (Exception (''Collection '' @ n @ '' already exists!'')), w1)
           | None \<Rightarrow>
               (Inr True,
                w1\<lparr>collections := (collections w1)(n \<mapsto> \<lparr>vectors_config = params, points = []\<rparr>)\<rparr>)))"

definition from_documents ::
  "ext \<Rightarrow> document list \<Rightarrow> embeddings \<Rightarrow> string option \<Rightarrow> string option \<Rightarrow> string \<Rightarrow> world
     \<Rightarrow> (exn + Qdrant) \<times> world" where
  "from_documents X documents embedding u k n w =
     (let w1 = record_request (Upsert n documents) w;
          handle = \<lparr>store_url = u, store_api_key = k, store_collection = n\<rparr> in
      case upsert_fault X n documents of
        Some e \<Rightarrow> (Inl e, w1)
      | None \<Rightarrow>
          (case collections w n of
             None \<Rightarrow>
               (Inr handle,
                w1\<lparr>collections := (collections w1)
                  (n \<mapsto> \<lparr>vectors_config = \<lparr>vsize = dim embedding, distance = COSINE\<rparr>,
                          points = documents\<rparr>)\<rparr>)
           | Some c \<Rightarrow>
               if vsize (vectors_config c) \<noteq> dim embedding
               then (Inl (Exception ''Existing Qdrant collection has another dimension''), w1)
               else (Inr handle,
                     w1\<lparr>collections := (collections w1)(n \<mapsto> c\<lparr>points := points c @ documents\<rparr>)\<rparr>)))"

text \<open>\<^verbatim>\<open>vector_store.as_retriever(search_kwargs=...)\<close>.\<close>

definition as_retriever :: "Qdrant \<Rightarrow> (string \<rightharpoonup> nat) \<Rightarrow> retriever" where
  "as_retriever vs kw = \<lparr>vectorstore = vs, search_kwargs = kw\<rparr>"

text \<open>What a search against a handle can return: the entries of its collection.\<close>

definition entries :: "world \<Rightarrow> Qdrant \<Rightarrow> document list" where
  "entries w vs = (case collections w (store_collection vs) of None \<Rightarrow> [] | Some c \<Rightarrow> points c)"

subsection \<open>initialize_components (lines 117 to 130)\<close>

definition initialize_components :: "ext \<Rightarrow> world \<Rightarrow> (embeddings option \<times> client option) \<times> world" where
  "initialize_components X w =
     (case HuggingFaceEmbeddings X ''sentence-transformers/all-MiniLM-L6-v2'' of
        Inl e \<Rightarrow> ((None, None), st_error (''Error initializing components: '' @ str e) w)
      | Inr embedding_model \<Rightarrow>
          (case QdrantClient X (getenv X ''QDRANT_URL'') (getenv X ''QDRANT_API_KEY'') of
             Inl e \<Rightarrow> ((None, None), st_error (''Error initializing components: '' @ str e) w)
           | Inr qdrant_client \<Rightarrow> ((Some embedding_model, Some qdrant_client), w)))"

subsection \<open>process_uploaded_files (lines 132 to 187)\<close>

text \<open>Lines 140 to 142: the bytes of the upload are written to a temporary file. No
  \<^verbatim>\<open>try\<close> encloses these lines: what they raise leaves the function.\<close>

definition stage :: "ext \<Rightarrow> uploaded_file \<Rightarrow> world \<Rightarrow> (exn + path) \<times> world" where
  "stage X uploaded_file w =
     (case NamedTemporaryFile X w of
        Inl e \<Rightarrow> (Inl e, w)
      | Inr (tmp_path, w1) \<Rightarrow>
          (case read uploaded_file of
             Inl e \<Rightarrow> (Inl e, w1)
           | Inr b \<Rightarrow>
               (case write_fault X tmp_path b of
                  Some e \<Rightarrow> (Inl e, w1)
                | None \<Rightarrow> (Inr tmp_path, w1\<lparr>fs := (fs w1)(tmp_path \<mapsto> b)\<rparr>))))"

text \<open>Lines 144 to 152: \<^verbatim>\<open>try\<close> (load, extend, report), \<^verbatim>\<open>except Exception\<close> (report),
  \<^verbatim>\<open>finally\<close> (unlink).\<close>

definition load_one ::
  "ext \<Rightarrow> uploaded_file \<Rightarrow> path \<Rightarrow> document list \<Rightarrow> world \<Rightarrow> (exn + document list) \<times> world" where
  "load_one X uploaded_file tmp_path text w =
     (let (text1, w1) =
            (case PyPDFLoader_load X tmp_path w of
               Inr pages \<Rightarrow>
                 (text @ pages, st_success (check_mark @ '' Processed: '' @ name uploaded_file) w)
             | Inl e \<Rightarrow>
                 (text, st_error (''Error processing '' @ name uploaded_file @ '': '' @ str e) w))
      in case os_unlink tmp_path w1 of
           Inl e \<Rightarrow> (Inl e, w1)
         | Inr w2 \<Rightarrow> (Inr text1, w2))"

text \<open>Lines 138 to 152: the loop over the uploaded files.\<close>

fun load_files ::
  "ext \<Rightarrow> uploaded_file list \<Rightarrow> document list \<Rightarrow> world \<Rightarrow> (exn + document list) \<times> world" where
  "load_files X [] text w = (Inr text, w)"
| "load_files X (uploaded_file # rest) text w =
     (case stage X uploaded_file w of
        (Inl e, w1) \<Rightarrow> (Inl e, w1)
      | (Inr tmp_path, w1) \<Rightarrow>
          (case load_one X uploaded_file tmp_path text w1 of
             (Inl e, w2) \<Rightarrow> (Inl e, w2)
           | (Inr text1, w2) \<Rightarrow> load_files X rest text1 w2))"

text \<open>Lines 162 to 187: the collection is deleted (whatever that raises is passed
  over), created and filled; any other exception is reported and gives \<^verbatim>\<open>None\<close>.\<close>

definition create_vector_store ::
  "ext \<Rightarrow> document list \<Rightarrow> embeddings \<Rightarrow> client \<Rightarrow> world \<Rightarrow> Qdrant option \<times> world" where
  "create_vector_store X text embedding_model qdrant_client w =
     (let cn = collection_name (time X);
          w1 = snd (delete_collection X cn w) in
      case create_collection X cn \<lparr>vsize = 384, distance = COSINE\<rparr> w1 of
        (Inl e, w2) \<Rightarrow> (None, st_error (''Error creating vector store: '' @ str e) w2)
      | (Inr created, w2) \<Rightarrow>
          (case from_documents X text embedding_model
                  (getenv X ''QDRANT_URL'') (getenv X ''QDRANT_API_KEY'') cn w2 of
             (Inl e, w3) \<Rightarrow> (None, st_error (''Error creating vector store: '' @ str e) w3)
           | (Inr vs, w3) \<Rightarrow>
               (Some vs,
                st_success (check_mark @ '' Successfully created vector store with ''
                            @ str_nat (length text) @ '' document chunks'') w3)))"

definition process_uploaded_files ::
  "ext \<Rightarrow> uploaded_file list \<Rightarrow> world \<Rightarrow> (exn + Qdrant option) \<times> world" where
  "process_uploaded_files X files w =
     (if files = [] then (Inr None, w)
      else
        (case load_files X files [] w of
           (Inl e, w1) \<Rightarrow> (Inl e, w1)
         | (Inr text, w1) \<Rightarrow>
             if text = [] then (Inr None, st_error ''No text extracted from PDFs'' w1)
             else
               (case initialize_components X w1 of
                  ((Some embedding_model, Some qdrant_client), w2) \<Rightarrow>
                    (case create_vector_store X text embedding_model qdrant_client w2 of
                       (r, w3) \<Rightarrow> (Inr r, w3))
                | ((_, _), w2) \<Rightarrow> (Inr None, w2))))"

subsection \<open>get_rag_response (lines 189 to 208)\<close>

definition get_rag_response ::
  "ext \<Rightarrow> string \<Rightarrow> Qdrant \<Rightarrow> world \<Rightarrow> (string option \<times> document list) \<times> world" where
  "get_rag_response X query vs w =
     (let llm = \<lparr>model = ''llama3.2:3b''\<rparr>;
          retriever = as_retriever vs [''k'' \<mapsto> 3];
          w1 = record_request (Invoke_chain llm retriever query) w in
      case RetrievalQA X llm retriever query (collections w) of
        Inl e \<Rightarrow> ((None, []), st_error (''Error generating response: '' @ str e) w1)
      | Inr response \<Rightarrow>
          ((Some (result response),
            (case source_documents response of None \<Rightarrow> [] | Some ds \<Rightarrow> ds)), w1))"

subsection \<open>main (lines 211 to 310)\<close>

text \<open>Lines 224 to 228: the button that starts the ingestion.\<close>

definition process_documents ::
  "ext \<Rightarrow> ui \<Rightarrow> session_state \<Rightarrow> world \<Rightarrow> (exn + unit) \<times> session_state \<times> world" where
  "process_documents X I s w =
     (if uploaded_files I \<noteq> [] \<and> process_button I then
        (case process_uploaded_files X (uploaded_files I) w of
           (Inl e, w1) \<Rightarrow> (Inl e, s, w1)
         | (Inr None, w1) \<Rightarrow> (Inr (), s, w1)
         | (Inr (Some vs), w1) \<Rightarrow>
             (Inr (), s\<lparr>vector_store := Some vs, documents_loaded := True\<rparr>, w1))
      else (Inr (), s, w))"

text \<open>Lines 215 to 237: the sidebar.\<close>

definition sidebar ::
  "ext \<Rightarrow> ui \<Rightarrow> session_state \<Rightarrow> world \<Rightarrow> (exn + flow) \<times> session_state \<times> world" where
  "sidebar X I s w =
     (case process_documents X I s w of
        (Inl e, s1, w1) \<Rightarrow> (Inl e, s1, w1)
      | (Inr u, s1, w1) \<Rightarrow>
          (let w2 = (if documents_loaded s1
                     then st_success (check_mark @ '' Documents processed and ready for queries!'') w1
                     else st_info ''Upload and process PDF documents to start asking questions'' w1)
           in if clear_button I then (Inr Rerun, s1\<lparr>chat_history := []\<rparr>, w2)
              else (Inr Done, s1, w2)))"

text \<open>Lines 255 to 310: the question. (Lines 240 to 254 only display the history.)\<close>

definition ask :: "ext \<Rightarrow> ui \<Rightarrow> session_state \<Rightarrow> world \<Rightarrow> flow \<times> session_state \<times> world" where
  "ask X I s w =
     (if documents_loaded s then
        (if ask_button I \<and> query_input I \<noteq> [] then
           (case vector_store s of
              Some vs \<Rightarrow>
                (let s1 = s\<lparr>chat_history := chat_history s @ [(''user'', query_input I)]\<rparr> in
                 case get_rag_response X (query_input I) vs w of
                   ((Some r, source_docs), w1) \<Rightarrow>
                     if r \<noteq> []
                     then (Rerun, s1\<lparr>chat_history := chat_history s1 @ [(''assistant'', r)]\<rparr>, w1)
                     else (Done, s1, w1)
                 | ((None, source_docs), w1) \<Rightarrow> (Done, s1, w1))
            | None \<Rightarrow> (Done, s, st_error ''Please process documents first!'' w))
         else (Done, s, w))
      else (Done, s, st_info ''Process documents first to enable querying'' w))"

definition main ::
  "ext \<Rightarrow> ui \<Rightarrow> session_state \<Rightarrow> world \<Rightarrow> (exn + flow) \<times> session_state \<times> world" where
  "main X I s w =
     (case sidebar X I s w of
        (Inl e, s1, w1) \<Rightarrow> (Inl e, s1, w1)
      | (Inr Rerun, s1, w1) \<Rightarrow> (Inr Rerun, s1, w1)
      | (Inr Done, s1, w1) \<Rightarrow> (case ask X I s1 w1 of (f, s2, w2) \<Rightarrow> (Inr f, s2, w2)))"

subsection \<open>What a batch yields\<close>

text \<open>With the temporary files \<open>fsys\<close> at hand: whether the bytes of an upload get
  staged, the pages the loader then extracts from it (none when it raises), and the
  message the loop shows for it.\<close>

definition staged :: "ext \<Rightarrow> (path \<rightharpoonup> bytes) \<Rightarrow> uploaded_file \<Rightarrow> bool" where
  "staged X fsys f =
     (case mkstemp X fsys of
        Inl e \<Rightarrow> False
      | Inr p \<Rightarrow>
          (case fsys p of
             Some b \<Rightarrow> False
           | None \<Rightarrow> (case read f of Inl e \<Rightarrow> False | Inr b \<Rightarrow> write_fault X p b = None)))"

definition loaded :: "ext \<Rightarrow> (path \<rightharpoonup> bytes) \<Rightarrow> uploaded_file \<Rightarrow> exn + document list" where
  "loaded X fsys f =
     (case mkstemp X fsys of
        Inl e \<Rightarrow> Inl e
      | Inr p \<Rightarrow> (case read f of Inl e \<Rightarrow> Inl e | Inr b \<Rightarrow> PyPDFLoader X p b))"

definition extracted :: "ext \<Rightarrow> (path \<rightharpoonup> bytes) \<Rightarrow> uploaded_file \<Rightarrow> document list" where
  "extracted X fsys f = (case loaded X fsys f of Inl e \<Rightarrow> [] | Inr pages \<Rightarrow> pages)"

definition report :: "ext \<Rightarrow> (path \<rightharpoonup> bytes) \<Rightarrow> uploaded_file \<Rightarrow> st_msg" where
  "report X fsys f =
     (case loaded X fsys f of
        Inl e \<Rightarrow> St_error (''Error processing '' @ name f @ '': '' @ str e)
      | Inr pages \<Rightarrow> St_success (check_mark @ '' Processed: '' @ name f))"

text \<open>The error exits of \<^verbatim>\<open>process_uploaded_files\<close>, told from what the libraries do:
  no page was extracted (line 154); a component cannot be built (lines 158 to 160);
  the collection cannot be created or filled (lines 185 to 187), because a request
  raises, because a collection of that name is still there after a deletion that
  failed, or because the embedding model has not the 384 dimensions asked for.\<close>

definition no_text_extracted :: "ext \<Rightarrow> (path \<rightharpoonup> bytes) \<Rightarrow> uploaded_file list \<Rightarrow> bool" where
  "no_text_extracted X fsys files = (concat (map (extracted X fsys) files) = [])"

definition initialization_fails :: "ext \<Rightarrow> bool" where
  "initialization_fails X =
     (case HuggingFaceEmbeddings X ''sentence-transformers/all-MiniLM-L6-v2'' of
        Inl e \<Rightarrow> True
      | Inr em \<Rightarrow>
          (case QdrantClient X (getenv X ''QDRANT_URL'') (getenv X ''QDRANT_API_KEY'') of
             Inl e \<Rightarrow> True
           | Inr qc \<Rightarrow> False))"

definition creation_fails :: "ext \<Rightarrow> (string \<rightharpoonup> collection) \<Rightarrow> document list \<Rightarrow> bool" where
  "creation_fails X cs docs =
     (let cn = collection_name (time X) in
      create_fault X cn \<noteq> None
      \<or> (delete_fault X cn \<noteq> None \<and> cs cn \<noteq> None)
      \<or> upsert_fault X cn docs \<noteq> None
      \<or> (case HuggingFaceEmbeddings X ''sentence-transformers/all-MiniLM-L6-v2'' of
            Inl e \<Rightarrow> False
          | Inr em \<Rightarrow> dim em \<noteq> 384))"

text \<open>The cut-off a request to the chain carries.\<close>

definition requested_k :: "request \<Rightarrow> nat option" where
  "requested_k r = (case r of Invoke_chain llm rt q \<Rightarrow> search_kwargs rt ''k'' | _ \<Rightarrow> None)"

subsection \<open>The configuration option of the specification\<close>

text \<open>The specification's cut-off: the option \<^verbatim>\<open>RETRIEVAL_K\<close> read as a decimal number,
  3 when it is absent. The program has no such function; this one is what the
  specification describes, to compare the program with.\<close>

definition nat_of_decimal :: "string \<Rightarrow> nat" where
  "nat_of_decimal ds = foldl (\<lambda>n c. 10 * n + (of_char c - 48)) 0 ds"

definition spec_retrieval_k :: "(string \<rightharpoonup> string) \<Rightarrow> nat" where
  "spec_retrieval_k env = (case env ''RETRIEVAL_K'' of None \<Rightarrow> 3 | Some v \<Rightarrow> nat_of_decimal v)"

subsection \<open>A concrete run\<close>

text \<open>Libraries that all work: a loader that accepts the bytes \<^verbatim>\<open>%PDF\<close> as a document of
  three pages and refuses anything else, a Qdrant service without faults, a chain that
  answers from the first k entries of the collection. Two uploads, one that parses and
  one that does not; an empty world and a fresh session.\<close>

definition page_of :: "path \<Rightarrow> nat \<Rightarrow> document" where
  "page_of p i = \<lparr>page_content = ''The sky is blue.'', source = p, page = i\<rparr>"

definition chain0 ::
  "Ollama \<Rightarrow> retriever \<Rightarrow> string \<Rightarrow> (string \<rightharpoonup> collection) \<Rightarrow> exn + response" where
  "chain0 llm r q cs =
     (case cs (store_collection (vectorstore r)) of
        None \<Rightarrow> Inl (Exception ''Collection not found'')
      | Some c \<Rightarrow>
          Inr \<lparr>result = ''Blue.'',
               source_documents =
                 Some (take (case search_kwargs r ''k'' of None \<Rightarrow> 4 | Some k \<Rightarrow> k) (points c))\<rparr>)"

definition X0 :: ext where
  "X0 = \<lparr>getenv = [''QDRANT_URL'' \<mapsto> ''http://localhost:6333''],
          time = 1700000000.25,
          mkstemp = (\<lambda>fsys. Inr ''/tmp/tmpa1.pdf''),
          write_fault = (\<lambda>p b. None),
          PyPDFLoader = (\<lambda>p b. if b = [37, 80, 68, 70]
                                 then Inr [page_of p 0, page_of p 1, page_of p 2]
                                 else Inl (Exception ''invalid pdf header'')),
          HuggingFaceEmbeddings = (\<lambda>m. Inr \<lparr>model_name = m, dim = 384\<rparr>),
          QdrantClient = (\<lambda>u k. Inr \<lparr>url = u, api_key = k\<rparr>),
          delete_fault = (\<lambda>n. None),
          create_fault = (\<lambda>n. None),
          upsert_fault = (\<lambda>n ds. None),
          RetrievalQA = chain0\<rparr>"

definition valid_pdf :: uploaded_file where
  "valid_pdf = \<lparr>name = ''valid.pdf'', read = Inr [37, 80, 68, 70]\<rparr>"

definition corrupt_pdf :: uploaded_file where
  "corrupt_pdf = \<lparr>name = ''corrupt.pdf'', read = Inr [0, 1, 2]\<rparr>"

definition w0 :: world where
  "w0 = \<lparr>fs = Map.empty, collections = Map.empty, requests = [], screen = []\<rparr>"

definition s0 :: session_state where
  "s0 = \<lparr>vector_store = None, chat_history = [], documents_loaded = False\<rparr>"

text \<open>Variations: the option \<^verbatim>\<open>RETRIEVAL_K\<close> set to 1; a chain that cannot reach its
  model; a Qdrant service that refuses deletions; a disk that is full.\<close>

definition X_retrieval_k :: ext where
  "X_retrieval_k = X0\<lparr>getenv := (getenv X0)(''RETRIEVAL_K'' \<mapsto> ''1'')\<rparr>"

definition X_chain_down :: ext where
  "X_chain_down = X0\<lparr>RetrievalQA := (\<lambda>llm r q cs. Inl (Exception ''Connection refused''))\<rparr>"

definition X_delete_fails :: ext where
  "X_delete_fails = X0\<lparr>delete_fault := (\<lambda>n. Some (Exception ''timed out''))\<rparr>"

definition X_disk_full :: ext where
  "X_disk_full =
     X0\<lparr>write_fault := (\<lambda>p b. Some (Exception ''[Errno 28] No space left on device''))\<rparr>"

text \<open>The handle of the first ingestion, a session that holds it, and the two
  interactions: the button that processes the uploads, the button that asks.\<close>

definition vs0 :: Qdrant where
  "vs0 = \<lparr>store_url = Some ''http://localhost:6333'', store_api_key = None,
          store_collection = collection_name 1700000000.25\<rparr>"

definition s_ready :: session_state where
  "s_ready = \<lparr>vector_store = Some vs0, chat_history = [], documents_loaded = True\<rparr>"

definition I_process :: "uploaded_file list \<Rightarrow> ui" where
  "I_process files =
     \<lparr>uploaded_files = files, process_button = True, clear_button = False,
      query_input = [], ask_button = False\<rparr>"

definition I_ask :: ui where
  "I_ask =
     \<lparr>uploaded_files = [], process_button = False, clear_button = False,
      query_input = ''What color is the sky?'', ask_button = True\<rparr>"

text \<open>The world after the first ingestion.\<close>

definition w_ready :: world where
  "w_ready = snd (process_uploaded_files X0 [corrupt_pdf, valid_pdf] w0)"

subsection \<open>Decimal strings are injective\<close>

lemma digit_char_inj: "a < 10 \<Longrightarrow> b < 10 \<Longrightarrow> digit_char a = digit_char b \<Longrightarrow> a = b"
proof -
  assume a: "a < 10" and b: "b < 10" and eq: "digit_char a = digit_char b"
  from eq have "of_char (char_of (48 + a) :: char) = (of_char (char_of (48 + b) :: char) :: nat)"
    by (simp add: digit_char_def)
  then have "(48 + a) mod 256 = (48 + b) mod 256"
    by simp
  with a b show "a = b" by simp
qed

lemma digit_char_not_minus: "d < 10 \<Longrightarrow> digit_char d \<noteq> CHR ''-''"
proof
  assume d: "d < 10" and eq: "digit_char d = CHR ''-''"
  from eq have "of_char (char_of (48 + d) :: char) = (of_char (CHR ''-'') :: nat)"
    by (simp add: digit_char_def)
  then have "(48 + d) mod 256 = 45" by simp
  with d show False by simp
qed

lemma str_nat_not_Nil: "str_nat n \<noteq> []"
  by (subst str_nat.simps) simp

lemma str_nat_small: "n < 10 \<Longrightarrow> str_nat n = [digit_char n]"
  by (subst str_nat.simps) simp

lemma str_nat_large: "\<not> n < 10 \<Longrightarrow> str_nat n = str_nat (n div 10) @ [digit_char (n mod 10)]"
  by (subst str_nat.simps) simp

lemma str_nat_inj: "str_nat m = str_nat n \<Longrightarrow> m = n"
proof (induction m arbitrary: n rule: str_nat.induct)
  case (1 m)
  show ?case
  proof (cases "m < 10")
    case True
    note m = this
    show ?thesis
    proof (cases "n < 10")
      case True
      with m "1.prems" show ?thesis
        by (simp add: str_nat_small digit_char_inj)
    next
      case False
      with m "1.prems" have "[digit_char m] = str_nat (n div 10) @ [digit_char (n mod 10)]"
        by (simp add: str_nat_small str_nat_large)
      then have "str_nat (n div 10) = []" by simp
      then show ?thesis by (simp add: str_nat_not_Nil)
    qed
  next
    case False
    note m = this
    show ?thesis
    proof (cases "n < 10")
      case True
      with m "1.prems" have "str_nat (m div 10) @ [digit_char (m mod 10)] = [digit_char n]"
        by (simp add: str_nat_small str_nat_large)
      then have "str_nat (m div 10) = []" by simp
      then show ?thesis by (simp add: str_nat_not_Nil)
    next
      case False
      with m "1.prems" have eq: "str_nat (m div 10) @ [digit_char (m mod 10)]
          = str_nat (n div 10) @ [digit_char (n mod 10)]"
        by (simp add: str_nat_large)
      then have a: "str_nat (m div 10) = str_nat (n div 10)"
        and b: "digit_char (m mod 10) = digit_char (n mod 10)"
        by simp_all
      from "1.IH" [OF m a] have q: "m div 10 = n div 10" .
      from b have r: "m mod 10 = n mod 10"
        by (rule digit_char_inj [rotated 2]) simp_all
      have "m = 10 * (m div 10) + m mod 10" by simp
      also have "\<dots> = 10 * (n div 10) + n mod 10" using q r by simp
      also have "\<dots> = n" by simp
      finally show ?thesis .
    qed
  qed
qed

lemma hd_str_nat_not_minus: "hd (str_nat n) \<noteq> CHR ''-''"
proof (induction n rule: str_nat.induct)
  case (1 n)
  show ?case
  proof (cases "n < 10")
    case True
    then show ?thesis by (simp add: str_nat_small digit_char_not_minus)
  next
    case False
    with "1.IH" show ?thesis
      by (simp add: str_nat_large str_nat_not_Nil)
  qed
qed

lemma str_int_inj: "str_int i = str_int j \<Longrightarrow> i = j"
proof -
  assume eq: "str_int i = str_int j"
  have neg_pos: "CHR ''-'' # str_nat a \<noteq> str_nat b" for a b
  proof
    assume "CHR ''-'' # str_nat a = str_nat b"
    then have "hd (str_nat b) = CHR ''-''" by (metis list.sel(1))
    then show False by (simp add: hd_str_nat_not_minus)
  qed
  show "i = j"
  proof (cases "i < 0")
    case True
    note i = this
    show ?thesis
    proof (cases "j < 0")
      case True
      with i eq have "nat (- i) = nat (- j)"
        by (simp add: str_int_def str_nat_inj)
      with i True show ?thesis by simp
    next
      case False
      with i eq have "CHR ''-'' # str_nat (nat (- i)) = str_nat (nat j)"
        by (simp add: str_int_def)
      with neg_pos show ?thesis by blast
    qed
  next
    case False
    note i = this
    show ?thesis
    proof (cases "j < 0")
      case True
      with i eq have "CHR ''-'' # str_nat (nat (- j)) = str_nat (nat i)"
        by (simp add: str_int_def)
      with neg_pos show ?thesis by blast
    next
      case False
      with i eq have "nat i = nat j"
        by (simp add: str_int_def str_nat_inj)
      with i False show ?thesis by simp
    qed
  qed
qed

subsection \<open>The loop over the uploaded files\<close>

lemma stage_Inr:
  assumes "stage X f w = (Inr p, w1)"
  shows "mkstemp X (fs w) = Inr p \<and> fs w p = None \<and>
         (\<exists>b. read f = Inr b \<and> write_fault X p b = None \<and> w1 = w\<lparr>fs := (fs w)(p \<mapsto> b)\<rparr>)"
  using assms
  by (auto simp: stage_def NamedTemporaryFile_def split: sum.splits option.splits)

lemma stage_staged: "(\<exists>p w1. stage X f w = (Inr p, w1)) = staged X (fs w) f"
  by (auto simp: stage_def NamedTemporaryFile_def staged_def split: sum.splits option.splits)

lemma load_one_staged:
  assumes "fs w1 p = Some b"
  shows "load_one X f p acc w1 =
           (Inr (acc @ (case PyPDFLoader X p b of Inl e \<Rightarrow> [] | Inr pages \<Rightarrow> pages)),
            w1\<lparr>fs := (fs w1)(p := None),
               screen := screen w1 @
                 [case PyPDFLoader X p b of
                    Inl e \<Rightarrow> St_error (''Error processing '' @ name f @ '': '' @ str e)
                  | Inr pages \<Rightarrow> St_success (check_mark @ '' Processed: '' @ name f)]\<rparr>)"
  using assms
  by (simp add: load_one_def PyPDFLoader_load_def os_unlink_def st_success_def st_error_def
      split: sum.splits)

lemma step_file:
  assumes "stage X f w = (Inr p, w1)"
  shows "load_one X f p acc w1 =
           (Inr (acc @ extracted X (fs w) f), w\<lparr>screen := screen w @ [report X (fs w) f]\<rparr>)"
proof -
  from stage_Inr [OF assms] obtain b where
    mk: "mkstemp X (fs w) = Inr p" and free: "fs w p = None" and rd: "read f = Inr b"
    and w1: "w1 = w\<lparr>fs := (fs w)(p \<mapsto> b)\<rparr>"
    by blast
  have "fs w1 p = Some b" by (simp add: w1)
  from load_one_staged [OF this, of X f acc] mk free rd show ?thesis
    by (simp add: w1 extracted_def report_def loaded_def fun_upd_idem split: sum.splits)
qed

lemma load_files_Inr:
  "load_files X files acc w = (Inr t, w') \<Longrightarrow>
     t = acc @ concat (map (extracted X (fs w)) files) \<and>
     w' = w\<lparr>screen := screen w @ map (report X (fs w)) files\<rparr> \<and>
     (\<forall>f \<in> set files. staged X (fs w) f)"
proof (induction files arbitrary: acc w)
  case Nil
  then show ?case by simp
next
  case (Cons f files)
  from Cons.prems obtain p w1 where st: "stage X f w = (Inr p, w1)"
    by (auto split: prod.splits sum.splits)
  note one = step_file [OF st, of acc]
  from Cons.prems st one
  have rest: "load_files X files (acc @ extracted X (fs w) f)
                (w\<lparr>screen := screen w @ [report X (fs w) f]\<rparr>) = (Inr t, w')"
    by simp
  from st have sf: "staged X (fs w) f" using stage_staged [of X f w] by blast
  from Cons.IH [OF rest] sf show ?case by simp
qed

lemma load_files_staged:
  "\<forall>f \<in> set files. staged X (fs w) f \<Longrightarrow>
     load_files X files acc w =
       (Inr (acc @ concat (map (extracted X (fs w)) files)),
        w\<lparr>screen := screen w @ map (report X (fs w)) files\<rparr>)"
proof (induction files arbitrary: acc w)
  case Nil
  then show ?case by simp
next
  case (Cons f files)
  from Cons.prems have "staged X (fs w) f" by simp
  then obtain p w1 where st: "stage X f w = (Inr p, w1)"
    using stage_staged [of X f w] by blast
  note one = step_file [OF st, of acc]
  from Cons.prems have "\<forall>g \<in> set files. staged X (fs (w\<lparr>screen := screen w @ [report X (fs w) f]\<rparr>)) g"
    by simp
  from Cons.IH [OF this, of "acc @ extracted X (fs w) f"] st one show ?case
    by simp
qed

subsection \<open>Components, vector store and query\<close>

lemma create_vector_store_requests:
  "\<exists>rest. requests (snd (create_vector_store X acc em qc w)) =
     requests w @ Delete_collection (collection_name (time X))
       # Create_collection (collection_name (time X)) \<lparr>vsize = 384, distance = COSINE\<rparr> # rest"
  by (auto simp: create_vector_store_def delete_collection_def create_collection_def
      from_documents_def record_request_def st_error_def st_success_def Let_def
      split: option.splits)

lemma create_vector_store_Some:
  assumes "create_vector_store X acc em qc w = (Some vs, w')"
  shows "store_collection vs = collection_name (time X) \<and>
         collections w' = (collections w)(collection_name (time X) \<mapsto>
            \<lparr>vectors_config = \<lparr>vsize = 384, distance = COSINE\<rparr>, points = acc\<rparr>) \<and>
         fs w' = fs w \<and> dim em = 384 \<and>
         create_fault X (collection_name (time X)) = None \<and>
         upsert_fault X (collection_name (time X)) acc = None \<and>
         (delete_fault X (collection_name (time X)) = None \<or> collections w (collection_name (time X)) = None)"
  using assms
  by (auto simp: create_vector_store_def delete_collection_def create_collection_def
      from_documents_def record_request_def st_error_def st_success_def Let_def
      split: option.splits if_splits)

lemma get_rag_response_world:
  "get_rag_response X q vs w = (r, w') \<Longrightarrow>
     fs w' = fs w \<and> collections w' = collections w"
  by (auto simp: get_rag_response_def record_request_def st_error_def Let_def split: sum.splits)

lemma ask_frame:
  "ask X I s w = (f, s', w') \<Longrightarrow>
     vector_store s' = vector_store s \<and> documents_loaded s' = documents_loaded s \<and>
     fs w' = fs w \<and> collections w' = collections w"
  by (auto simp: ask_def st_error_def st_info_def Let_def
      split: if_splits option.splits prod.splits dest: get_rag_response_world)

lemma initialize_components_Some:
  "initialize_components X w = ((Some em, Some qc), w') \<Longrightarrow>
     HuggingFaceEmbeddings X ''sentence-transformers/all-MiniLM-L6-v2'' = Inr em \<and>
     QdrantClient X (getenv X ''QDRANT_URL'') (getenv X ''QDRANT_API_KEY'') = Inr qc \<and> w' = w"
  by (auto simp: initialize_components_def split: sum.splits)

lemma initialize_components_cases:
  "fst (initialize_components X w) = (None, None) \<or>
   (\<exists>em qc. initialize_components X w = ((Some em, Some qc), w))"
  by (auto simp: initialize_components_def split: sum.splits)

lemma create_vector_store_fails:
  "create_fault X (collection_name (time X)) \<noteq> None
   \<or> (delete_fault X (collection_name (time X)) \<noteq> None \<and> collections w (collection_name (time X)) \<noteq> None)
   \<or> upsert_fault X (collection_name (time X)) acc \<noteq> None
   \<or> dim em \<noteq> 384 \<Longrightarrow>
   fst (create_vector_store X acc em qc w) = None"
  by (auto simp: create_vector_store_def delete_collection_def create_collection_def
      from_documents_def record_request_def st_error_def st_success_def Let_def
      split: option.splits)

lemma process_uploaded_files_staged:
  assumes "\<forall>f \<in> set files. staged X (fs w) f"
  shows "process_uploaded_files X files w =
     (if files = [] then (Inr None, w)
      else let acc = concat (map (extracted X (fs w)) files);
               w1 = w\<lparr>screen := screen w @ map (report X (fs w)) files\<rparr>
           in if acc = [] then (Inr None, st_error ''No text extracted from PDFs'' w1)
              else (case initialize_components X w1 of
                      ((Some em, Some qc), w2) \<Rightarrow>
                         (Inr (fst (create_vector_store X acc em qc w2)),
                          snd (create_vector_store X acc em qc w2))
                    | ((_, _), w2) \<Rightarrow> (Inr None, w2)))"
  by (simp add: process_uploaded_files_def load_files_staged [OF assms] Let_def
      split: prod.splits option.splits)

lemma process_uploaded_files_Some:
  assumes "process_uploaded_files X files w = (Inr (Some vs), w')"
  shows "(\<forall>f \<in> set files. staged X (fs w) f) \<and>
         concat (map (extracted X (fs w)) files) \<noteq> [] \<and>
         entries w' vs = concat (map (extracted X (fs w)) files) \<and>
         store_collection vs = collection_name (time X) \<and> fs w' = fs w"
proof -
  from assms have ne: "files \<noteq> []"
    by (auto simp: process_uploaded_files_def split: if_splits)
  from assms ne obtain acc w1 where lf: "load_files X files [] w = (Inr acc, w1)"
    by (auto simp: process_uploaded_files_def split: prod.splits sum.splits)
  from load_files_Inr [OF lf] have acc: "acc = concat (map (extracted X (fs w)) files)"
    and w1: "w1 = w\<lparr>screen := screen w @ map (report X (fs w)) files\<rparr>"
    and st: "\<forall>f \<in> set files. staged X (fs w) f"
    by simp_all
  from assms ne lf have accne: "acc \<noteq> []"
    by (auto simp: process_uploaded_files_def split: if_splits)
  from assms ne lf accne obtain em qc w2 where
    ini: "initialize_components X w1 = ((Some em, Some qc), w2)"
    and cvs: "create_vector_store X acc em qc w2 = (Some vs, w')"
    by (auto simp: process_uploaded_files_def split: prod.splits option.splits)
  from initialize_components_Some [OF ini] have w2: "w2 = w1" by simp
  from create_vector_store_Some [OF cvs] have
    "store_collection vs = collection_name (time X)"
    "collections w' (collection_name (time X)) =
       Some \<lparr>vectors_config = \<lparr>vsize = 384, distance = COSINE\<rparr>, points = acc\<rparr>"
    "fs w' = fs w2"
    by simp_all
  with st acc accne w1 w2 show ?thesis
    by (simp add: entries_def)
qed

lemma process_documents_session:
  assumes "process_documents X I s w = (r, s', w')"
  shows "s' = s \<or> (\<exists>vs. s' = s\<lparr>vector_store := Some vs, documents_loaded := True\<rparr> \<and> entries w' vs \<noteq> [])"
proof (cases "uploaded_files I \<noteq> [] \<and> process_button I")
  case False
  with assms show ?thesis by (auto simp: process_documents_def)
next
  case True
  obtain r1 w1 where run: "process_uploaded_files X (uploaded_files I) w = (r1, w1)"
    by (cases "process_uploaded_files X (uploaded_files I) w")
  show ?thesis
  proof (cases r1)
    case (Inl e)
    with assms True run show ?thesis by (simp add: process_documents_def)
  next
    case (Inr h)
    show ?thesis
    proof (cases h)
      case None
      with assms True run Inr show ?thesis by (simp add: process_documents_def)
    next
      case (Some vs)
      with run Inr have "process_uploaded_files X (uploaded_files I) w = (Inr (Some vs), w1)"
        by simp
      from process_uploaded_files_Some [OF this] have "entries w1 vs \<noteq> []" by simp
      with assms True run Inr Some show ?thesis by (auto simp: process_documents_def)
    qed
  qed
qed

lemma sidebar_session:
  assumes "sidebar X I s w = (r, s', w')"
  shows "\<exists>r1 s1 w1. process_documents X I s w = (r1, s1, w1) \<and>
           vector_store s' = vector_store s1 \<and> documents_loaded s' = documents_loaded s1 \<and>
           collections w' = collections w1"
  using assms
  by (auto simp: sidebar_def st_success_def st_info_def Let_def
      split: prod.splits sum.splits if_splits)

lemma main_session:
  assumes "main X I s w = (r, s', w')"
  shows "(vector_store s' = vector_store s \<and> documents_loaded s' = documents_loaded s) \<or>
         (\<exists>vs. vector_store s' = Some vs \<and> documents_loaded s' \<and> entries w' vs \<noteq> [])"
proof -
  obtain r2 s2 w2 where sb: "sidebar X I s w = (r2, s2, w2)"
    by (cases "sidebar X I s w")
  from sidebar_session [OF sb] obtain r1 s1 w1 where
    pd: "process_documents X I s w = (r1, s1, w1)"
    and a: "vector_store s2 = vector_store s1" "documents_loaded s2 = documents_loaded s1"
           "collections w2 = collections w1"
    by blast
  have b: "vector_store s' = vector_store s2 \<and> documents_loaded s' = documents_loaded s2 \<and>
           collections w' = collections w2"
  proof (cases r2)
    case (Inl e)
    with assms sb show ?thesis by (simp add: main_def)
  next
    case (Inr fl)
    show ?thesis
    proof (cases fl)
      case Rerun
      with assms sb Inr show ?thesis by (simp add: main_def)
    next
      case Done
      obtain f3 s3 w3 where ak: "ask X I s2 w2 = (f3, s3, w3)" by (cases "ask X I s2 w2")
      from ask_frame [OF ak] assms sb Inr Done ak show ?thesis by (simp add: main_def)
    qed
  qed
  from b a have e: "entries w' vs = entries w1 vs" for vs
    by (simp add: entries_def)
  from process_documents_session [OF pd] a b e show ?thesis
    by auto
qed

lemma process_uploaded_files_raises_iff:
  "(\<exists>e. fst (process_uploaded_files X files w) = Inl e) = (\<not> (\<forall>f \<in> set files. staged X (fs w) f))"
proof
  assume "\<exists>e. fst (process_uploaded_files X files w) = Inl e"
  then obtain e where e: "fst (process_uploaded_files X files w) = Inl e" ..
  show "\<not> (\<forall>f \<in> set files. staged X (fs w) f)"
  proof
    assume st: "\<forall>f \<in> set files. staged X (fs w) f"
    from e show False
      by (auto simp: process_uploaded_files_staged [OF st] Let_def
          split: if_splits prod.splits option.splits)
  qed
next
  assume ns: "\<not> (\<forall>f \<in> set files. staged X (fs w) f)"
  then have ne: "files \<noteq> []" by auto
  obtain r w1 where lf: "load_files X files [] w = (r, w1)" by (cases "load_files X files [] w")
  show "\<exists>e. fst (process_uploaded_files X files w) = Inl e"
  proof (cases r)
    case (Inl e)
    with lf ne show ?thesis by (simp add: process_uploaded_files_def)
  next
    case (Inr acc)
    with lf load_files_Inr [of X files "[]" w acc w1] ns show ?thesis by simp
  qed
qed

subsection \<open>Temporary files and the index creation\<close>

lemma staged_file_deleted:
  assumes "stage X f w = (Inr tmp_path, w1)"
  shows "fs w1 tmp_path \<noteq> None \<and>
         (\<exists>acc' w2. load_one X f tmp_path acc w1 = (Inr acc', w2) \<and>
                     fs w2 tmp_path = None \<and> fs w2 = fs w)"
proof -
  from stage_Inr [OF assms] have "fs w tmp_path = None" "fs w1 tmp_path \<noteq> None"
    by auto
  with step_file [OF assms, of acc] show ?thesis by simp
qed

lemma staging_fault_leaves_file:
  assumes "NamedTemporaryFile X w = Inr (p, w1)" and "stage X f w = (Inl e, w2)"
  shows "fs w p = None \<and> fs w2 p = Some [] \<and>
         (read f = Inl e \<or> (\<exists>b. read f = Inr b \<and> write_fault X p b = Some e))"
  using assms
  by (auto simp: stage_def NamedTemporaryFile_def split: sum.splits option.splits)

lemma load_files_fault_leaves_file:
  assumes "load_files X files acc w = (Inl e, w')" and "mkstemp X (fs w) = Inr p"
    and "fs w p = None"
  shows "fs w' p = Some []"
  using assms
proof (induction files arbitrary: acc w)
  case Nil
  then show ?case by simp
next
  case (Cons f files)
  obtain r w1 where st: "stage X f w = (r, w1)" by (cases "stage X f w")
  from Cons.prems(2,3) have nt: "NamedTemporaryFile X w = Inr (p, w\<lparr>fs := (fs w)(p \<mapsto> [])\<rparr>)"
    by (simp add: NamedTemporaryFile_def)
  show ?case
  proof (cases r)
    case (Inl e1)
    with st Cons.prems(1) have "w' = w1" by simp
    with staging_fault_leaves_file [OF nt] st Inl show ?thesis by simp
  next
    case (Inr q)
    with st have sq: "stage X f w = (Inr q, w1)" by simp
    note one = step_file [OF sq, of acc]
    from Cons.prems(1) sq one
    have rest: "load_files X files (acc @ extracted X (fs w) f)
                  (w\<lparr>screen := screen w @ [report X (fs w) f]\<rparr>) = (Inl e, w')"
      by simp
    from Cons.IH [OF rest] Cons.prems(2,3) show ?thesis by simp
  qed
qed

lemma str_nat_1: "str_nat (Suc 0) = ''1''"
proof -
  have "digit_char (Suc 0) = CHR ''1''" by code_simp
  then show ?thesis by (simp add: str_nat.simps)
qed

lemmas vector_store_defs =
  create_vector_store_def delete_collection_def create_collection_def from_documents_def
  record_request_def st_error_def st_success_def Let_def

lemma delete_collection_screen: "screen (snd (delete_collection X n w)) = screen w"
  by (simp add: delete_collection_def record_request_def Let_def split: option.splits)

lemma create_collection_screen: "screen (snd (create_collection X n P w)) = screen w"
  by (simp add: create_collection_def record_request_def Let_def split: option.splits)

lemma from_documents_screen: "screen (snd (from_documents X ds em u k n w)) = screen w"
  by (simp add: from_documents_def record_request_def Let_def split: option.splits)

lemma create_vector_store_succeeds_iff:
  "(fst (create_vector_store X acc em qc w) \<noteq> None) =
     (create_fault X (collection_name (time X)) = None \<and>
      upsert_fault X (collection_name (time X)) acc = None \<and> dim em = 384 \<and>
      (delete_fault X (collection_name (time X)) = None \<or>
       collections w (collection_name (time X)) = None))"
  by (auto simp: vector_store_defs split: option.splits)

lemma create_vector_store_screen:
  "screen (snd (create_vector_store X acc em qc w)) = screen w @
     [case fst (create_collection X (collection_name (time X)) \<lparr>vsize = 384, distance = COSINE\<rparr>
                  (snd (delete_collection X (collection_name (time X)) w))) of
        Inl e \<Rightarrow> St_error (''Error creating vector store: '' @ str e)
      | Inr c \<Rightarrow>
          (case fst (from_documents X acc em (getenv X ''QDRANT_URL'')
                       (getenv X ''QDRANT_API_KEY'') (collection_name (time X))
                       (snd (create_collection X (collection_name (time X))
                               \<lparr>vsize = 384, distance = COSINE\<rparr>
                               (snd (delete_collection X (collection_name (time X)) w))))) of
             Inl e \<Rightarrow> St_error (''Error creating vector store: '' @ str e)
           | Inr vs \<Rightarrow>
               St_success (check_mark @ '' Successfully created vector store with ''
                           @ str_nat (length acc) @ '' document chunks''))]"
proof -
  let ?cn = "collection_name (time X)"
  let ?wd = "snd (delete_collection X ?cn w)"
  obtain r2 w2 where c: "create_collection X ?cn \<lparr>vsize = 384, distance = COSINE\<rparr> ?wd = (r2, w2)"
    by (cases "create_collection X ?cn \<lparr>vsize = 384, distance = COSINE\<rparr> ?wd")
  from create_collection_screen [of X ?cn "\<lparr>vsize = 384, distance = COSINE\<rparr>" ?wd] c
  have s2: "screen w2 = screen w" by (simp add: delete_collection_screen)
  obtain r3 w3 where f: "from_documents X acc em (getenv X ''QDRANT_URL'')
      (getenv X ''QDRANT_API_KEY'') ?cn w2 = (r3, w3)"
    by (cases "from_documents X acc em (getenv X ''QDRANT_URL'') (getenv X ''QDRANT_API_KEY'') ?cn w2")
  from from_documents_screen [of X acc em "getenv X ''QDRANT_URL''" "getenv X ''QDRANT_API_KEY''" ?cn w2] f
  have s3: "screen w3 = screen w" by (simp add: s2)
  from c f s2 s3 show ?thesis
    by (simp add: create_vector_store_def Let_def st_error_def st_success_def split: sum.splits)
qed

subsection \<open>Evaluating the concrete run\<close>

lemmas pipeline_defs =
  process_uploaded_files_def stage_def NamedTemporaryFile_def load_one_def
  PyPDFLoader_load_def os_unlink_def st_error_def st_success_def st_info_def
  initialize_components_def create_vector_store_def delete_collection_def
  create_collection_def from_documents_def record_request_def get_rag_response_def
  as_retriever_def process_documents_def sidebar_def ask_def main_def entries_def Let_def

lemmas example_defs =
  X0_def w0_def s0_def valid_pdf_def corrupt_pdf_def vs0_def s_ready_def I_process_def
  I_ask_def chain0_def page_of_def w_ready_def X_retrieval_k_def X_chain_down_def
  X_delete_fails_def X_disk_full_def

section \<open>The claims\<close>

text \<open>
  C1. When the staging of every upload goes through and the batch then leaves by an
  error exit (no page extracted, a component that cannot be built, a collection that
  cannot be created or filled), \<^verbatim>\<open>process_uploaded_files\<close> returns \<^verbatim>\<open>None\<close>. A handle it
  returns has at least one entry. After a run of \<^verbatim>\<open>main\<close>, the session's
  \<^verbatim>\<open>vector_store\<close> and \<^verbatim>\<open>documents_loaded\<close> are what they were, or they hold a handle that
  has at least one entry.
\<close>

theorem ingest_failure_gives_no_handle:
  "((\<forall>f \<in> set files. staged X (fs w) f) \<and>
      (no_text_extracted X (fs w) files \<or> initialization_fails X \<or>
       creation_fails X (collections w) (concat (map (extracted X (fs w)) files)))
     \<longrightarrow> fst (process_uploaded_files X files w) = Inr None)
   \<and> (\<forall>vs. fst (process_uploaded_files X files w) = Inr (Some vs)
          \<longrightarrow> entries (snd (process_uploaded_files X files w)) vs \<noteq> [])
   \<and> (vector_store (fst (snd (main X I s w))) = vector_store s \<and>
       documents_loaded (fst (snd (main X I s w))) = documents_loaded s
       \<or> (\<exists>vs. vector_store (fst (snd (main X I s w))) = Some vs \<and>
                documents_loaded (fst (snd (main X I s w))) \<and>
                entries (snd (snd (main X I s w))) vs \<noteq> []))"
proof (intro conjI impI allI)
  assume h: "(\<forall>f \<in> set files. staged X (fs w) f) \<and>
      (no_text_extracted X (fs w) files \<or> initialization_fails X \<or>
       creation_fails X (collections w) (concat (map (extracted X (fs w)) files)))"
  then have st: "\<forall>f \<in> set files. staged X (fs w) f" by simp
  let ?acc = "concat (map (extracted X (fs w)) files)"
  let ?w1 = "w\<lparr>screen := screen w @ map (report X (fs w)) files\<rparr>"
  note eq = process_uploaded_files_staged [OF st]
  show "fst (process_uploaded_files X files w) = Inr None"
  proof (cases "files = [] \<or> ?acc = []")
    case True
    then show ?thesis by (auto simp: eq Let_def)
  next
    case False
    with h have f: "initialization_fails X \<or> creation_fails X (collections w) ?acc"
      by (auto simp: no_text_extracted_def)
    from initialize_components_cases [of X ?w1] show ?thesis
    proof
      assume "fst (initialize_components X ?w1) = (None, None)"
      with False show ?thesis
        by (auto simp: eq Let_def split: prod.splits option.splits)
    next
      assume "\<exists>em qc. initialize_components X ?w1 = ((Some em, Some qc), ?w1)"
      then obtain em qc where ini: "initialize_components X ?w1 = ((Some em, Some qc), ?w1)"
        by blast
      from initialize_components_Some [OF ini] have em:
        "HuggingFaceEmbeddings X ''sentence-transformers/all-MiniLM-L6-v2'' = Inr em"
        "QdrantClient X (getenv X ''QDRANT_URL'') (getenv X ''QDRANT_API_KEY'') = Inr qc"
        by simp_all
      with f have "creation_fails X (collections ?w1) ?acc"
        by (simp add: initialization_fails_def)
      with em have "fst (create_vector_store X ?acc em qc ?w1) = None"
        by (intro create_vector_store_fails) (auto simp: creation_fails_def Let_def)
      with False ini show ?thesis
        by (simp add: eq Let_def)
    qed
  qed
next
  fix vs
  assume "fst (process_uploaded_files X files w) = Inr (Some vs)"
  then have "process_uploaded_files X files w = (Inr (Some vs), snd (process_uploaded_files X files w))"
    by (cases "process_uploaded_files X files w") simp
  from process_uploaded_files_Some [OF this]
  show "entries (snd (process_uploaded_files X files w)) vs \<noteq> []" by simp
next
  have "main X I s w = (fst (main X I s w), fst (snd (main X I s w)), snd (snd (main X I s w)))"
    by simp
  from main_session [OF this]
  show "vector_store (fst (snd (main X I s w))) = vector_store s \<and>
       documents_loaded (fst (snd (main X I s w))) = documents_loaded s
       \<or> (\<exists>vs. vector_store (fst (snd (main X I s w))) = Some vs \<and>
                documents_loaded (fst (snd (main X I s w))) \<and>
                entries (snd (snd (main X I s w))) vs \<noteq> [])" .
qed

text \<open>The batch of one unparsable upload gives \<^verbatim>\<open>None\<close> and leaves the session as it was;
  the batch with a valid upload gives a handle with entries, which the session takes.\<close>

theorem ingest_failure_gives_no_handle_witness:
  "staged X0 (fs w0) corrupt_pdf \<and>
   no_text_extracted X0 (fs w0) [corrupt_pdf] \<and>
   fst (process_uploaded_files X0 [corrupt_pdf] w0) = Inr None \<and>
   fst (process_uploaded_files X0 [corrupt_pdf, valid_pdf] w0) = Inr (Some vs0) \<and>
   entries (snd (process_uploaded_files X0 [corrupt_pdf, valid_pdf] w0)) vs0 \<noteq> [] \<and>
   fst (snd (main X0 (I_process [corrupt_pdf]) s0 w0)) = s0 \<and>
   vector_store (fst (snd (main X0 (I_process [corrupt_pdf, valid_pdf]) s0 w0))) = Some vs0 \<and>
   entries (snd (snd (main X0 (I_process [corrupt_pdf, valid_pdf]) s0 w0))) vs0 \<noteq> []"
proof -
  have h1: "\<forall>f \<in> set [corrupt_pdf]. staged X0 (fs w0) f"
    by (simp add: staged_def example_defs)
  have h2: "no_text_extracted X0 (fs w0) [corrupt_pdf]"
    by (simp add: no_text_extracted_def extracted_def loaded_def example_defs)
  from ingest_failure_gives_no_handle [of "[corrupt_pdf]" X0 w0] h1 h2
  have c1: "fst (process_uploaded_files X0 [corrupt_pdf] w0) = Inr None"
    by blast
  have h3: "fst (process_uploaded_files X0 [corrupt_pdf, valid_pdf] w0) = Inr (Some vs0)"
    by (simp add: pipeline_defs example_defs)
  from ingest_failure_gives_no_handle [of "[corrupt_pdf, valid_pdf]" X0 w0] h3
  have c2: "entries (snd (process_uploaded_files X0 [corrupt_pdf, valid_pdf] w0)) vs0 \<noteq> []"
    by blast
  have m1: "fst (snd (main X0 (I_process [corrupt_pdf]) s0 w0)) = s0"
    by (simp add: pipeline_defs example_defs)
  have m2: "vector_store (fst (snd (main X0 (I_process [corrupt_pdf, valid_pdf]) s0 w0))) = Some vs0"
    by (simp add: pipeline_defs example_defs)
  from ingest_failure_gives_no_handle
    [of "[]" X0 w0 "I_process [corrupt_pdf, valid_pdf]" s0] m2
  have c3: "entries (snd (snd (main X0 (I_process [corrupt_pdf, valid_pdf]) s0 w0))) vs0 \<noteq> []"
    by (auto simp: s0_def)
  from h1 h2 c1 h3 c2 m1 m2 c3 show ?thesis by simp
qed

text \<open>
  C2. In a batch whose uploads all get staged, an upload \<open>f\<close> whose loading raises \<open>e\<close> is
  caught: the loop returns normally, the pages are those of the uploads before and
  after \<open>f\<close>, in that order, and the page shows the reports of the other uploads with
  one error message, for \<open>f\<close>, in its place.
\<close>

theorem parse_failure_confined:
  assumes "\<forall>g \<in> set (pre @ f # post). staged X (fs w) g"
    and "loaded X (fs w) f = Inl e"
  shows "load_files X (pre @ f # post) [] w =
           (Inr (concat (map (extracted X (fs w)) pre) @ concat (map (extracted X (fs w)) post)),
            w\<lparr>screen := screen w @ map (report X (fs w)) pre
                 @ St_error (''Error processing '' @ name f @ '': '' @ str e)
                 # map (report X (fs w)) post\<rparr>)"
  using assms(2)
  by (simp add: load_files_staged [OF assms(1)] extracted_def report_def)

text \<open>An unparsable upload followed by a valid one of three pages: three pages, one
  error message, one success message.\<close>

theorem parse_failure_confined_witness:
  "staged X0 (fs w0) corrupt_pdf \<and> staged X0 (fs w0) valid_pdf \<and>
   loaded X0 (fs w0) corrupt_pdf = Inl (Exception ''invalid pdf header'') \<and>
   load_files X0 ([] @ corrupt_pdf # [valid_pdf]) [] w0 =
     (Inr [page_of ''/tmp/tmpa1.pdf'' 0, page_of ''/tmp/tmpa1.pdf'' 1, page_of ''/tmp/tmpa1.pdf'' 2],
      w0\<lparr>screen := [St_error ''Error processing corrupt.pdf: invalid pdf header'',
                     St_success (check_mark @ '' Processed: valid.pdf'')]\<rparr>)"
proof -
  have h1: "\<forall>g \<in> set ([] @ corrupt_pdf # [valid_pdf]). staged X0 (fs w0) g"
    by (simp add: staged_def example_defs)
  have h2: "loaded X0 (fs w0) corrupt_pdf = Inl (Exception ''invalid pdf header'')"
    by (simp add: loaded_def example_defs)
  from parse_failure_confined [OF h1 h2] h1 h2 show ?thesis
    by (simp add: extracted_def report_def loaded_def example_defs)
qed

text \<open>
  C3. When \<^verbatim>\<open>process_uploaded_files\<close> returns a handle, the entries of its collection are
  the pages extracted from the uploads, in the order of the uploads and, within an
  upload, of its pages; their number is the sum of the numbers of pages extracted.
\<close>

theorem index_entries_are_extracted_pages:
  assumes "process_uploaded_files X files w = (Inr (Some vs), w')"
  shows "entries w' vs = concat (map (extracted X (fs w)) files) \<and>
         length (entries w' vs) = (\<Sum>f\<leftarrow>files. length (extracted X (fs w) f))"
proof -
  from process_uploaded_files_Some [OF assms]
  have e: "entries w' vs = concat (map (extracted X (fs w)) files)" by simp
  then show ?thesis by (simp add: length_concat comp_def)
qed

text \<open>One unparsable upload and a valid one of three pages: a handle with three
  entries.\<close>

theorem index_entries_are_extracted_pages_witness:
  "fst (process_uploaded_files X0 [corrupt_pdf, valid_pdf] w0) = Inr (Some vs0) \<and>
   entries (snd (process_uploaded_files X0 [corrupt_pdf, valid_pdf] w0)) vs0 =
     [page_of ''/tmp/tmpa1.pdf'' 0, page_of ''/tmp/tmpa1.pdf'' 1, page_of ''/tmp/tmpa1.pdf'' 2] \<and>
   length (entries (snd (process_uploaded_files X0 [corrupt_pdf, valid_pdf] w0)) vs0) = 3"
proof -
  have h: "fst (process_uploaded_files X0 [corrupt_pdf, valid_pdf] w0) = Inr (Some vs0)"
    by (simp add: pipeline_defs example_defs)
  then have "process_uploaded_files X0 [corrupt_pdf, valid_pdf] w0 =
      (Inr (Some vs0), snd (process_uploaded_files X0 [corrupt_pdf, valid_pdf] w0))"
    by (cases "process_uploaded_files X0 [corrupt_pdf, valid_pdf] w0") simp
  from index_entries_are_extracted_pages [OF this] h show ?thesis
    by (simp add: extracted_def loaded_def example_defs)
qed

text \<open>
  C4, as the specification has it: the names of any two distinct ingestion batches
  differ. Two batches whose clock readings fall in the same second get the same name:
  the readings 1700000000.25 and 1700000000.75 differ, the names do not.
\<close>

theorem collection_name_collision:
  "(1700000000.25 :: real) \<noteq> 1700000000.75 \<and>
   collection_name 1700000000.25 = collection_name 1700000000.75"
  by (simp add: collection_name_def py_int_def)

text \<open>
  C4, amended: the name of a batch is \<^verbatim>\<open>RAG_PDF_\<close> followed by the whole seconds of the
  clock reading, so two batches have the same name exactly when their clock readings
  have the same whole seconds.
\<close>

theorem collection_name_eq_iff:
  "(collection_name t1 = collection_name t2) = (py_int t1 = py_int t2)"
  by (auto simp: collection_name_def dest: str_int_inj)

text \<open>
  C5, as the specification has it: the query reads the cut-off from the option
  \<^verbatim>\<open>RETRIEVAL_K\<close>. With the option set to 1, the request that \<^verbatim>\<open>get_rag_response\<close> sends
  to the chain carries k = 3, and three sources come back.
\<close>

theorem retrieval_k_ignores_option:
  "requested_k (last (requests (snd (get_rag_response X_retrieval_k ''What color is the sky?'' vs0 w_ready))))
     \<noteq> Some (spec_retrieval_k (getenv X_retrieval_k)) \<and>
   getenv X_retrieval_k ''RETRIEVAL_K'' = Some ''1'' \<and>
   spec_retrieval_k (getenv X_retrieval_k) = 1 \<and>
   length (snd (fst (get_rag_response X_retrieval_k ''What color is the sky?'' vs0 w_ready))) = 3"
  by (simp add: pipeline_defs example_defs requested_k_def spec_retrieval_k_def nat_of_decimal_def)

text \<open>
  C5, amended: the cut-off is the constant 3 written in \<^verbatim>\<open>get_rag_response\<close>. Every
  query invokes the chain with the model \<^verbatim>\<open>llama3.2:3b\<close> and a retriever of k = 3, and
  what \<^verbatim>\<open>get_rag_response\<close> does is the same under any setting of the environment
  options.
\<close>

theorem retrieval_k_constant:
  "requests (snd (get_rag_response X query vs w)) =
     requests w @ [Invoke_chain \<lparr>model = ''llama3.2:3b''\<rparr>
                     \<lparr>vectorstore = vs, search_kwargs = [''k'' \<mapsto> 3]\<rparr> query] \<and>
   get_rag_response (X\<lparr>getenv := env\<rparr>) query vs w = get_rag_response X query vs w"
  by (simp add: get_rag_response_def as_retriever_def record_request_def st_error_def Let_def
      split: sum.splits)

text \<open>
  C6. For a session that holds a handle with \<^verbatim>\<open>documents_loaded\<close> set, a query for which
  \<^verbatim>\<open>get_rag_response\<close> fails leaves \<^verbatim>\<open>vector_store\<close> and \<^verbatim>\<open>documents_loaded\<close> as they
  were, and the collections too: a search against the handle finds the same entries.
\<close>

theorem failed_query_keeps_ready:
  assumes "vector_store s = Some vs" and "documents_loaded s"
    and "fst (fst (get_rag_response X (query_input I) vs w)) = None"
  shows "vector_store (fst (snd (ask X I s w))) = Some vs \<and>
         documents_loaded (fst (snd (ask X I s w))) \<and>
         collections (snd (snd (ask X I s w))) = collections w \<and>
         entries (snd (snd (ask X I s w))) vs = entries w vs"
proof -
  have "ask X I s w = (fst (ask X I s w), fst (snd (ask X I s w)), snd (snd (ask X I s w)))"
    by simp
  from ask_frame [OF this] assms(1,2) show ?thesis
    by (simp add: entries_def)
qed

text \<open>The chain cannot reach its model: the session keeps its handle and the handle its
  three entries.\<close>

theorem failed_query_keeps_ready_witness:
  "vector_store s_ready = Some vs0 \<and> documents_loaded s_ready \<and>
   fst (fst (get_rag_response X_chain_down (query_input I_ask) vs0 w_ready)) = None \<and>
   vector_store (fst (snd (ask X_chain_down I_ask s_ready w_ready))) = Some vs0 \<and>
   documents_loaded (fst (snd (ask X_chain_down I_ask s_ready w_ready))) \<and>
   entries (snd (snd (ask X_chain_down I_ask s_ready w_ready))) vs0 =
     [page_of ''/tmp/tmpa1.pdf'' 0, page_of ''/tmp/tmpa1.pdf'' 1, page_of ''/tmp/tmpa1.pdf'' 2]"
proof -
  have h1: "vector_store s_ready = Some vs0" and h2: "documents_loaded s_ready"
    by (simp_all add: s_ready_def)
  have h3: "fst (fst (get_rag_response X_chain_down (query_input I_ask) vs0 w_ready)) = None"
    by (simp add: get_rag_response_def X_chain_down_def Let_def)
  have e: "entries w_ready vs0 =
     [page_of ''/tmp/tmpa1.pdf'' 0, page_of ''/tmp/tmpa1.pdf'' 1, page_of ''/tmp/tmpa1.pdf'' 2]"
    by (simp add: pipeline_defs example_defs)
  from failed_query_keeps_ready [OF h1 h2 h3] h1 h2 h3 e show ?thesis by simp
qed

text \<open>
  C7, at the input where the code departs from it. The temporary file is created with
  \<^verbatim>\<open>delete=False\<close> at line 140 and unlinked only in the \<^verbatim>\<open>finally\<close> of lines 151 to 152,
  which lines 140 to 142 are not inside. For an upload that is staged the file is gone
  after the load step, whatever the loader does (\<open>staged_file_deleted\<close>); on the exit
  path where the write of line 141 raises, here on a full disk, no file of that name was
  there before and the file is still there after \<^verbatim>\<open>process_uploaded_files\<close> and after
  \<^verbatim>\<open>main\<close>.
\<close>

theorem temporary_file_left_by_staging_fault:
  "fs w0 ''/tmp/tmpa1.pdf'' = None \<and>
   stage X_disk_full valid_pdf w0 =
     (Inl (Exception ''[Errno 28] No space left on device''),
      w0\<lparr>fs := [''/tmp/tmpa1.pdf'' \<mapsto> []]\<rparr>) \<and>
   fs (snd (process_uploaded_files X_disk_full [valid_pdf] w0)) ''/tmp/tmpa1.pdf'' = Some [] \<and>
   fs (snd (snd (main X_disk_full (I_process [corrupt_pdf, valid_pdf]) s0 w0))) ''/tmp/tmpa1.pdf''
     = Some []"
  by (simp add: pipeline_defs example_defs)

text \<open>
  C8. Whatever the services do, the first request of the index creation is the
  deletion of the collection of the generated name and the second is its creation
  with 384 dimensions and the cosine distance. The deletion decides nothing by
  raising: a handle is returned exactly when creating and filling raise nothing, the
  model has 384 dimensions, and the deletion went through or there was no collection
  of that name to delete. A returned handle names a collection of these parameters
  that holds the documents of the batch and no others, also when a collection of that
  name existed before. The page gains one message, which is the success message or the
  error of the creation or of the filling: a deletion that raises shows nothing.
\<close>

theorem delete_before_create:
  "(\<exists>rest. requests (snd (create_vector_store X acc em qc w)) =
      requests w @ Delete_collection (collection_name (time X))
        # Create_collection (collection_name (time X)) \<lparr>vsize = 384, distance = COSINE\<rparr> # rest)
   \<and> ((fst (create_vector_store X acc em qc w) \<noteq> None) =
        (create_fault X (collection_name (time X)) = None \<and>
         upsert_fault X (collection_name (time X)) acc = None \<and> dim em = 384 \<and>
         (delete_fault X (collection_name (time X)) = None \<or>
          collections w (collection_name (time X)) = None)))
   \<and> (\<forall>vs. fst (create_vector_store X acc em qc w) = Some vs \<longrightarrow>
         store_collection vs = collection_name (time X) \<and>
         collections (snd (create_vector_store X acc em qc w)) (collection_name (time X)) =
           Some \<lparr>vectors_config = \<lparr>vsize = 384, distance = COSINE\<rparr>, points = acc\<rparr>)
   \<and> screen (snd (create_vector_store X acc em qc w)) = screen w @
     [case fst (create_collection X (collection_name (time X)) \<lparr>vsize = 384, distance = COSINE\<rparr>
                  (snd (delete_collection X (collection_name (time X)) w))) of
        Inl e \<Rightarrow> St_error (''Error creating vector store: '' @ str e)
      | Inr c \<Rightarrow>
          (case fst (from_documents X acc em (getenv X ''QDRANT_URL'')
                       (getenv X ''QDRANT_API_KEY'') (collection_name (time X))
                       (snd (create_collection X (collection_name (time X))
                               \<lparr>vsize = 384, distance = COSINE\<rparr>
                               (snd (delete_collection X (collection_name (time X)) w))))) of
             Inl e \<Rightarrow> St_error (''Error creating vector store: '' @ str e)
           | Inr vs \<Rightarrow>
               St_success (check_mark @ '' Successfully created vector store with ''
                           @ str_nat (length acc) @ '' document chunks''))]"
proof (intro conjI allI impI)
  show "\<exists>rest. requests (snd (create_vector_store X acc em qc w)) =
      requests w @ Delete_collection (collection_name (time X))
        # Create_collection (collection_name (time X)) \<lparr>vsize = 384, distance = COSINE\<rparr> # rest"
    by (rule create_vector_store_requests)
next
  show "(fst (create_vector_store X acc em qc w) \<noteq> None) =
        (create_fault X (collection_name (time X)) = None \<and>
         upsert_fault X (collection_name (time X)) acc = None \<and> dim em = 384 \<and>
         (delete_fault X (collection_name (time X)) = None \<or>
          collections w (collection_name (time X)) = None))"
    by (rule create_vector_store_succeeds_iff)
next
  fix vs
  assume "fst (create_vector_store X acc em qc w) = Some vs"
  then have r: "create_vector_store X acc em qc w = (Some vs, snd (create_vector_store X acc em qc w))"
    by (cases "create_vector_store X acc em qc w") simp
  from create_vector_store_Some [OF r]
  show "store_collection vs = collection_name (time X)" by simp
  from create_vector_store_Some [OF r]
  show "collections (snd (create_vector_store X acc em qc w)) (collection_name (time X)) =
           Some \<lparr>vectors_config = \<lparr>vsize = 384, distance = COSINE\<rparr>, points = acc\<rparr>"
    by simp
next
  show "screen (snd (create_vector_store X acc em qc w)) = screen w @
     [case fst (create_collection X (collection_name (time X)) \<lparr>vsize = 384, distance = COSINE\<rparr>
                  (snd (delete_collection X (collection_name (time X)) w))) of
        Inl e \<Rightarrow> St_error (''Error creating vector store: '' @ str e)
      | Inr c \<Rightarrow>
          (case fst (from_documents X acc em (getenv X ''QDRANT_URL'')
                       (getenv X ''QDRANT_API_KEY'') (collection_name (time X))
                       (snd (create_collection X (collection_name (time X))
                               \<lparr>vsize = 384, distance = COSINE\<rparr>
                               (snd (delete_collection X (collection_name (time X)) w))))) of
             Inl e \<Rightarrow> St_error (''Error creating vector store: '' @ str e)
           | Inr vs \<Rightarrow>
               St_success (check_mark @ '' Successfully created vector store with ''
                           @ str_nat (length acc) @ '' document chunks''))]"
    by (rule create_vector_store_screen)
qed

text \<open>A stale collection of three entries under the generated name: with a service that
  deletes, the collection is replaced by one holding the new document alone. A service
  that refuses every deletion: without a stale collection the ingestion succeeds and
  shows the success message only; with one, the creation raises and its error is what
  is shown.\<close>

theorem delete_before_create_witness:
  "collections w_ready (collection_name 1700000000.25) =
     Some \<lparr>vectors_config = \<lparr>vsize = 384, distance = COSINE\<rparr>,
           points = [page_of ''/tmp/tmpa1.pdf'' 0, page_of ''/tmp/tmpa1.pdf'' 1,
                     page_of ''/tmp/tmpa1.pdf'' 2]\<rparr> \<and>
   delete_fault X0 (collection_name 1700000000.25) = None \<and>
   fst (create_vector_store X0 [page_of ''b.pdf'' 0]
          \<lparr>model_name = ''sentence-transformers/all-MiniLM-L6-v2'', dim = 384\<rparr>
          \<lparr>url = None, api_key = None\<rparr> w_ready) \<noteq> None \<and>
   collections (snd (create_vector_store X0 [page_of ''b.pdf'' 0]
          \<lparr>model_name = ''sentence-transformers/all-MiniLM-L6-v2'', dim = 384\<rparr>
          \<lparr>url = None, api_key = None\<rparr> w_ready)) (collection_name 1700000000.25) =
     Some \<lparr>vectors_config = \<lparr>vsize = 384, distance = COSINE\<rparr>, points = [page_of ''b.pdf'' 0]\<rparr> \<and>
   delete_fault X_delete_fails (collection_name 1700000000.25) = Some (Exception ''timed out'') \<and>
   collections w0 (collection_name 1700000000.25) = None \<and>
   fst (create_vector_store X_delete_fails [page_of ''b.pdf'' 0]
          \<lparr>model_name = ''sentence-transformers/all-MiniLM-L6-v2'', dim = 384\<rparr>
          \<lparr>url = None, api_key = None\<rparr> w0) \<noteq> None \<and>
   screen (snd (create_vector_store X_delete_fails [page_of ''b.pdf'' 0]
          \<lparr>model_name = ''sentence-transformers/all-MiniLM-L6-v2'', dim = 384\<rparr>
          \<lparr>url = None, api_key = None\<rparr> w0)) =
     [St_success (check_mark @ '' Successfully created vector store with 1 document chunks'')] \<and>
   fst (create_vector_store X_delete_fails [page_of ''b.pdf'' 0]
          \<lparr>model_name = ''sentence-transformers/all-MiniLM-L6-v2'', dim = 384\<rparr>
          \<lparr>url = None, api_key = None\<rparr> w_ready) = None \<and>
   screen (snd (create_vector_store X_delete_fails [page_of ''b.pdf'' 0]
          \<lparr>model_name = ''sentence-transformers/all-MiniLM-L6-v2'', dim = 384\<rparr>
          \<lparr>url = None, api_key = None\<rparr> w_ready)) =
     screen w_ready @
       [St_error (''Error creating vector store: Collection ''
                  @ collection_name 1700000000.25 @ '' already exists!'')]"
proof -
  let ?em = "\<lparr>model_name = ''sentence-transformers/all-MiniLM-L6-v2'', dim = 384\<rparr>"
  let ?qc = "\<lparr>url = None, api_key = None\<rparr>"
  let ?b = "[page_of ''b.pdf'' 0]"
  have stale: "collections w_ready (collection_name 1700000000.25) =
     Some \<lparr>vectors_config = \<lparr>vsize = 384, distance = COSINE\<rparr>,
           points = [page_of ''/tmp/tmpa1.pdf'' 0, page_of ''/tmp/tmpa1.pdf'' 1,
                     page_of ''/tmp/tmpa1.pdf'' 2]\<rparr>"
    by (simp add: pipeline_defs example_defs)
  have x0: "time X0 = 1700000000.25" "delete_fault X0 = (\<lambda>n. None)"
    "create_fault X0 = (\<lambda>n. None)" "upsert_fault X0 = (\<lambda>n ds. None)"
    by (simp_all add: X0_def)
  have xd: "time X_delete_fails = 1700000000.25"
    "delete_fault X_delete_fails = (\<lambda>n. Some (Exception ''timed out''))"
    "create_fault X_delete_fails = (\<lambda>n. None)" "upsert_fault X_delete_fails = (\<lambda>n ds. None)"
    by (simp_all add: X_delete_fails_def X0_def)
  have fresh: "collections w0 (collection_name 1700000000.25) = None"
    by (simp add: w0_def)
  note t1 = delete_before_create [of X0 ?b ?em ?qc w_ready]
  from t1 have a1: "fst (create_vector_store X0 ?b ?em ?qc w_ready) \<noteq> None"
    by (simp add: x0)
  with t1 have a2: "collections (snd (create_vector_store X0 ?b ?em ?qc w_ready))
      (collection_name 1700000000.25) =
     Some \<lparr>vectors_config = \<lparr>vsize = 384, distance = COSINE\<rparr>, points = ?b\<rparr>"
    by (auto simp: x0)
  note t2 = delete_before_create [of X_delete_fails ?b ?em ?qc w0]
  from t2 fresh have b1: "fst (create_vector_store X_delete_fails ?b ?em ?qc w0) \<noteq> None"
    by (simp add: xd)
  from t2 have b2: "screen (snd (create_vector_store X_delete_fails ?b ?em ?qc w0)) =
     [St_success (check_mark @ '' Successfully created vector store with 1 document chunks'')]"
    by (simp add: xd w0_def create_collection_def delete_collection_def from_documents_def
        record_request_def Let_def str_nat_1)
  note t3 = delete_before_create [of X_delete_fails ?b ?em ?qc w_ready]
  from t3 stale have c1: "fst (create_vector_store X_delete_fails ?b ?em ?qc w_ready) = None"
    by (simp add: xd)
  from t3 stale have c2: "screen (snd (create_vector_store X_delete_fails ?b ?em ?qc w_ready)) =
     screen w_ready @
       [St_error (''Error creating vector store: Collection ''
                  @ collection_name 1700000000.25 @ '' already exists!'')]"
    by (simp add: xd create_collection_def delete_collection_def record_request_def Let_def)
  from stale x0 a1 a2 xd fresh b1 b2 c1 c2 show ?thesis by simp
qed

text \<open>
  C9, at the input where the code departs from it. The bytes of an upload are written
  to the temporary file outside any \<^verbatim>\<open>try\<close> (lines 140 to 142). On a full disk the
  \<^verbatim>\<open>OSError\<close> of the write leaves \<^verbatim>\<open>process_uploaded_files\<close> and then \<^verbatim>\<open>main\<close>: no value is
  returned, no message is shown, and the temporary file stays.
\<close>

theorem staging_fault_propagates:
  "process_uploaded_files X_disk_full [valid_pdf] w0 =
     (Inl (Exception ''[Errno 28] No space left on device''),
      w0\<lparr>fs := [''/tmp/tmpa1.pdf'' \<mapsto> []]\<rparr>) \<and>
   main X_disk_full (I_process [valid_pdf]) s0 w0 =
     (Inl (Exception ''[Errno 28] No space left on device''), s0,
      w0\<lparr>fs := [''/tmp/tmpa1.pdf'' \<mapsto> []]\<rparr>)"
  by (simp add: pipeline_defs example_defs)

text \<open>
  C10. For a query submitted against a loaded vector store, the conversation gains the
  user turn, and after it an assistant turn exactly when \<^verbatim>\<open>get_rag_response\<close> gives a
  non-empty response: when the chain fails the log ends with the user turn alone.
\<close>

theorem user_turn_precedes_answer:
  assumes "documents_loaded s" and "vector_store s = Some vs"
    and "ask_button I" and "query_input I \<noteq> []"
  shows "chat_history (fst (snd (ask X I s w))) =
           chat_history s @ (''user'', query_input I) #
             (case fst (fst (get_rag_response X (query_input I) vs w)) of
                None \<Rightarrow> []
              | Some r \<Rightarrow> if r = [] then [] else [(''assistant'', r)])"
  using assms
  by (cases "get_rag_response X (query_input I) vs w")
     (auto simp: ask_def Let_def split: option.splits prod.splits)

text \<open>The same question with a chain that fails and with one that answers.\<close>

theorem user_turn_precedes_answer_witness:
  "documents_loaded s_ready \<and> vector_store s_ready = Some vs0 \<and>
   ask_button I_ask \<and> query_input I_ask \<noteq> [] \<and>
   chat_history (fst (snd (ask X_chain_down I_ask s_ready w_ready))) =
     [(''user'', ''What color is the sky?'')] \<and>
   chat_history (fst (snd (ask X0 I_ask s_ready w_ready))) =
     [(''user'', ''What color is the sky?''), (''assistant'', ''Blue.'')]"
proof -
  have h1: "documents_loaded s_ready" and h2: "vector_store s_ready = Some vs0"
    by (simp_all add: s_ready_def)
  have h3: "ask_button I_ask" and h4: "query_input I_ask \<noteq> []"
    by (simp_all add: I_ask_def)
  have f: "fst (fst (get_rag_response X_chain_down (query_input I_ask) vs0 w_ready)) = None"
    by (simp add: get_rag_response_def X_chain_down_def Let_def)
  have g: "fst (fst (get_rag_response X0 (query_input I_ask) vs0 w_ready)) = Some ''Blue.''"
    by (simp add: pipeline_defs example_defs)
  from user_turn_precedes_answer [OF h1 h2 h3 h4, of X_chain_down w_ready]
       user_turn_precedes_answer [OF h1 h2 h3 h4, of X0 w_ready] h1 h2 h3 h4 f g
  show ?thesis by (simp add: s_ready_def I_ask_def)
qed

end
